theory Spec2Isabelle
  imports Main "HOL-Library.Word"
begin

section \<open>Xen HVM driver (arch/x86/drivers/xen/hvm.c)\<close>

text \<open>
  A shallow embedding of the iPXE Xen HVM attach and detach sequence. Every function of
  \<^verbatim>\<open>hvm.c\<close> is a HOL function of the same name over
  \<^item> the device structure \<^verbatim>\<open>struct hvm_device\<close>, passed in and returned updated;
  \<^item> the chronological list of calls the driver makes to its collaborators (allocator,
    page mapper, hypervisor, bus), oldest first;
  \<^item> an environment that answers each such call. An answer may depend on everything the
    driver did before, so the environment reads the list of calls made so far.

  Integers have the widths of the i386 build: \<^verbatim>\<open>unsigned int\<close>, \<^verbatim>\<open>unsigned long\<close>,
  \<^verbatim>\<open>size_t\<close>, \<^verbatim>\<open>physaddr_t\<close> and pointers are 32 bits wide and are words, so that
  \<open>+\<close>, \<open>-\<close> and \<open>*\<close> wrap as they do in C. A null pointer is the word 0.
\<close>

subsection \<open>Data\<close>

type_synonym u32 = "32 word"
type_synonym addr = "32 word"

text \<open>
  Status codes. The source returns negative integers built by the macros \<^verbatim>\<open>ENOMEM\<close>,
  \<^verbatim>\<open>ENODEV\<close>, \<^verbatim>\<open>ENOTTY\<close> and \<^verbatim>\<open>EXEN ( xenrc )\<close>, the last wrapping the status of a
  hypercall. \<open>Errno n\<close> is any other status that a function of another file returns.
  A return status is \<open>None\<close> for 0 and \<open>Some e\<close> for the error \<open>e\<close>.
\<close>

datatype error = ENOMEM | ENODEV | ENOTTY | EXEN int | Errno int

type_synonym rc = "error option"

text \<open>The four registers a CPUID instruction returns.\<close>

record cpuid_regs =
  eax :: u32
  ebx :: u32
  ecx :: u32
  edx :: u32

text \<open>The arguments of the two physical-address-map hypercalls, with the fields the driver names.\<close>

record xen_add_to_physmap =
  a_domid :: "16 word"
  a_idx :: u32
  a_space :: u32
  a_gpfn :: u32

record xen_remove_from_physmap =
  r_domid :: "16 word"
  r_gpfn :: u32

text \<open>
  \<^verbatim>\<open>struct hvm_device\<close> together with the fields of its embedded \<^verbatim>\<open>struct xen_hypervisor\<close>
  that the driver writes: \<open>hypercall\<close> is \<^verbatim>\<open>xen.hypercall\<close>, \<open>shared\<close> is \<^verbatim>\<open>xen.shared\<close>,
  \<open>grant_table\<close> and \<open>grant_count\<close> are \<^verbatim>\<open>xen.grant.table\<close> and \<^verbatim>\<open>xen.grant.count\<close>,
  \<open>store_intf\<close> and \<open>store_port\<close> are \<^verbatim>\<open>xen.store.intf\<close> and \<^verbatim>\<open>xen.store.port\<close>.
\<close>

record hvm_device =
  hypercall :: addr
  shared :: addr
  grant_table :: addr
  grant_count :: u32
  store_intf :: addr
  store_port :: u32
  cpuid_base :: u32
  hypercall_len :: u32
  mmio :: u32
  mmio_offset :: u32
  mmio_len :: u32

text \<open>
  The constants the driver takes from headers that are not part of the translated file
  (\<^verbatim>\<open>hvm.h\<close>, the Xen interface headers, the page size). They are a parameter of every
  function. \<open>grant_entry_size\<close> is \<^verbatim>\<open>sizeof ( hvm->xen.grant.table[0] )\<close>;
  \<open>HVM_CPUID_MAGIC\<close> is the signature as bytes. The page size and the entry size are
  positive in every build; for the value 0, where the C division would trap, the division
  of HOL yields 0.
\<close>

record hvm_consts =
  PAGE_SIZE :: u32
  HVM_CPUID_MIN :: u32
  HVM_CPUID_MAX :: u32
  HVM_CPUID_STEP :: u32
  HVM_CPUID_VERSION :: u32
  HVM_CPUID_PAGES :: u32
  HVM_CPUID_MAGIC :: "8 word list"
  DOMID_SELF :: "16 word"
  XENMAPSPACE_shared_info :: u32
  XENMAPSPACE_grant_table :: u32
  HVM_PARAM_STORE_EVTCHN :: u32
  HVM_PARAM_STORE_PFN :: u32
  grant_entry_size :: u32

text \<open>
  The calls the driver makes, in the order it makes them. A call that returns a pointer
  records the pointer, and a physical-address-map hypercall records its status, so that
  what is still allocated or mapped can be read off the list.
\<close>

datatype event =
    Zalloc addr
  | Free addr
  | Adjust_pci_device
  | Pci_set_drvdata addr
  | Malloc_dma u32 u32 addr
  | Free_dma addr u32
  | Wrmsr u32 u32
  | Xenver_version
  | Xenver_extraversion
  | Ioremap u32 u32 addr
  | Iounmap addr
  | Add_to_physmap xen_add_to_physmap int
  | Remove_from_physmap xen_remove_from_physmap int
  | Query_size "16 word"
  | Set_version u32
  | Get_param u32
  | Xenstore_read string
  | Xenbus_probe
  | Xenbus_remove
  | Readl addr

text \<open>
  The environment: the processor, the allocators, the page mapper, the hypervisor and the
  bus layer. An answer that can change over time reads the calls made so far; \<open>cpuid\<close>,
  \<open>virt_to_phys\<close> and the two values read from the PCI BAR do not.
  A hypercall answers with its integer status (0 is success) and, where the hypervisor
  writes into the argument structure, with the value written. \<open>xenstore_read\<close> and
  \<open>xenbus_probe\<close> belong to other files of the driver and answer with a status.
  \<open>indeterminate_gpfn\<close> is the content that the never-assigned field \<^verbatim>\<open>remove.gpfn\<close> of
  the local variable \<^verbatim>\<open>remove\<close> of \<^verbatim>\<open>hvm_ioremap\<close> happens to hold.
\<close>

record env =
  cpuid :: "u32 \<Rightarrow> cpuid_regs"
  virt_to_phys :: "addr \<Rightarrow> u32"
  zalloc :: "event list \<Rightarrow> addr"
  pci_bar_start :: u32
  pci_bar_size :: u32
  malloc_dma :: "event list \<Rightarrow> u32 \<Rightarrow> u32 \<Rightarrow> addr"
  xenver_version :: "event list \<Rightarrow> int"
  xenver_extraversion :: "event list \<Rightarrow> int"
  ioremap :: "event list \<Rightarrow> u32 \<Rightarrow> u32 \<Rightarrow> addr"
  xenmem_add_to_physmap :: "event list \<Rightarrow> xen_add_to_physmap \<Rightarrow> int"
  xenmem_remove_from_physmap :: "event list \<Rightarrow> xen_remove_from_physmap \<Rightarrow> int"
  indeterminate_gpfn :: "event list \<Rightarrow> u32"
  xengrant_query_size :: "event list \<Rightarrow> int \<times> u32"
  xengrant_set_version :: "event list \<Rightarrow> u32 \<Rightarrow> int \<times> u32"
  xen_hvm_get_param :: "event list \<Rightarrow> u32 \<Rightarrow> int \<times> 64 word"
  xenstore_read :: "event list \<Rightarrow> string \<Rightarrow> rc"
  xenbus_probe :: "event list \<Rightarrow> rc"
  readl :: "event list \<Rightarrow> addr \<Rightarrow> u32"

subsection \<open>Word arithmetic of the loop counters\<close>

lemma unat_succ_below: "(i::u32) < pages \<Longrightarrow> unat (i + 1) = Suc (unat i)"
proof -
  assume "i < pages"
  then have "unat i < unat pages"
    by (simp add: word_less_nat_alt)
  moreover have "unat pages < 2 ^ 32"
    using unsigned_less [of pages] by simp
  ultimately have "unat i + 1 < 2 ^ 32"
    by linarith
  then show ?thesis
    by (simp add: unat_word_ariths)
qed

lemma sint_pred_nonneg: "0 \<le> sint (i::u32) \<Longrightarrow> sint (i - 1) = sint i - 1"
proof -
  assume nonneg: "0 \<le> sint i"
  have below: "sint i < 2 ^ 31"
    using sint_lt [of i] by simp
  have "sint (i - 1) = signed_take_bit 31 (sint i - 1)"
    by (simp add: sint_word_ariths)
  also have "\<dots> = sint i - 1"
    using nonneg below by (simp add: signed_take_bit_int_eq_self)
  finally show ?thesis .
qed

subsection \<open>Allocating and mapping MMIO space\<close>

text \<open>
  The loop \<^verbatim>\<open>for ( i = 0 ; i < pages ; i++ )\<close> of \<^verbatim>\<open>hvm_ioremap\<close>. It stops at the first
  request the hypervisor refuses and returns the index and the status, or \<open>None\<close> when
  every page was added.
\<close>

function add_loop ::
  "hvm_consts \<Rightarrow> env \<Rightarrow> u32 \<Rightarrow> u32 \<Rightarrow> u32 \<Rightarrow> u32 \<Rightarrow> event list \<Rightarrow> (u32 \<times> int) option \<times> event list"
where
  "add_loop K E sp mmio_phys pages i tr =
     (if i < pages then
        (let add = \<lparr> a_domid = DOMID_SELF K, a_idx = i, a_space = sp,
                     a_gpfn = mmio_phys div PAGE_SIZE K + i \<rparr>;
             xenrc = xenmem_add_to_physmap E tr add;
             tr' = tr @ [Add_to_physmap add xenrc]
         in if xenrc \<noteq> 0 then (Some (i, xenrc), tr')
            else add_loop K E sp mmio_phys pages (i + 1) tr')
      else (None, tr))"
  by pat_completeness auto
termination
  by (relation "measure (\<lambda>(K, E, sp, mmio_phys, pages, i, tr). unat pages - unat i)")
     (simp_all add: unat_succ_below word_less_nat_alt)

text \<open>
  The loop after the label \<^verbatim>\<open>err_add_to_physmap\<close>:
  \<^verbatim>\<open>for ( i-- ; ( signed int ) i >= 0 ; i-- )\<close>. The caller passes the counter already
  decremented. The body sets \<^verbatim>\<open>remove.domid\<close> and then assigns the frame number to
  \<^verbatim>\<open>add.gpfn\<close>, a variable no later call reads, so that assignment is not modelled:
  \<^verbatim>\<open>remove.gpfn\<close> keeps the content \<open>remove\<close> came with.
\<close>

function rollback_loop ::
  "hvm_consts \<Rightarrow> env \<Rightarrow> xen_remove_from_physmap \<Rightarrow> u32 \<Rightarrow> event list \<Rightarrow> event list"
where
  "rollback_loop K E remove i tr =
     (if 0 \<le> sint i then
        (let remove' = remove \<lparr> r_domid := DOMID_SELF K \<rparr>;
             xenrc = xenmem_remove_from_physmap E tr remove'
         in rollback_loop K E remove' (i - 1) (tr @ [Remove_from_physmap remove' xenrc]))
      else tr)"
  by pat_completeness auto
termination
  by (relation "measure (\<lambda>(K, E, remove, i, tr). nat (sint i + 1))")
     (simp_all add: sint_pred_nonneg)

text \<open>
  \<^verbatim>\<open>hvm_ioremap\<close> returns the mapped address, or 0 (\<^verbatim>\<open>NULL\<close>) on every error.
  \<open>r_domid\<close> of the local \<^verbatim>\<open>remove\<close> is indeterminate as well until the loop assigns it;
  the loop assigns it before each use, so any initial value does.
\<close>

definition hvm_ioremap ::
  "hvm_consts \<Rightarrow> env \<Rightarrow> hvm_device \<Rightarrow> event list \<Rightarrow> u32 \<Rightarrow> u32 \<Rightarrow> addr \<times> hvm_device \<times> event list"
where
  "hvm_ioremap K E hvm tr sp pages =
     (let len = pages * PAGE_SIZE K in
      if mmio_offset hvm + len > mmio_len hvm then (0, hvm, tr)
      else
        (let mmio_v = ioremap E tr (mmio hvm + mmio_offset hvm) len;
             tr1 = tr @ [Ioremap (mmio hvm + mmio_offset hvm) len mmio_v]
         in if mmio_v = 0 then (0, hvm, tr1)
            else
              (let mmio_phys = virt_to_phys E mmio_v in
               case add_loop K E sp mmio_phys pages 0 tr1 of
                 (None, tr2) \<Rightarrow> (mmio_v, hvm \<lparr> mmio_offset := mmio_offset hvm + len \<rparr>, tr2)
               | (Some (i, xenrc), tr2) \<Rightarrow>
                   (let remove = \<lparr> r_domid = 0, r_gpfn = indeterminate_gpfn E tr \<rparr>;
                        tr3 = rollback_loop K E remove (i - 1) tr2
                    in (0, hvm, tr3 @ [Iounmap mmio_v])))))"

text \<open>The loop of \<^verbatim>\<open>hvm_iounmap\<close>: the status of each removal is only printed.\<close>

function iounmap_loop ::
  "hvm_consts \<Rightarrow> env \<Rightarrow> u32 \<Rightarrow> u32 \<Rightarrow> u32 \<Rightarrow> event list \<Rightarrow> event list"
where
  "iounmap_loop K E mmio_phys pages i tr =
     (if i < pages then
        (let remove = \<lparr> r_domid = DOMID_SELF K, r_gpfn = mmio_phys div PAGE_SIZE K + i \<rparr>;
             xenrc = xenmem_remove_from_physmap E tr remove
         in iounmap_loop K E mmio_phys pages (i + 1) (tr @ [Remove_from_physmap remove xenrc]))
      else tr)"
  by pat_completeness auto
termination
  by (relation "measure (\<lambda>(K, E, mmio_phys, pages, i, tr). unat pages - unat i)")
     (simp_all add: unat_succ_below word_less_nat_alt)

definition hvm_iounmap ::
  "hvm_consts \<Rightarrow> env \<Rightarrow> hvm_device \<Rightarrow> event list \<Rightarrow> addr \<Rightarrow> u32 \<Rightarrow> event list"
where
  "hvm_iounmap K E hvm tr mmio_v pages =
     (let mmio_phys = virt_to_phys E mmio_v
      in iounmap_loop K E mmio_phys pages 0 (tr @ [Iounmap mmio_v]))"

declare add_loop.simps [simp del] rollback_loop.simps [simp del] iounmap_loop.simps [simp del]

subsection \<open>Locating the hypervisor\<close>

text \<open>
  \<^verbatim>\<open>memcmp ( &signature, HVM_CPUID_MAGIC, sizeof ( signature ) )\<close> compares the twelve bytes
  of the packed structure of \<^verbatim>\<open>ebx\<close>, \<^verbatim>\<open>ecx\<close>, \<^verbatim>\<open>edx\<close>, each stored low byte first.
\<close>

definition le_bytes :: "u32 \<Rightarrow> 8 word list" where
  "le_bytes w = [ucast w, ucast (drop_bit 8 w), ucast (drop_bit 16 w), ucast (drop_bit 24 w)]"

definition signature_bytes :: "cpuid_regs \<Rightarrow> 8 word list" where
  "signature_bytes r = le_bytes (ebx r) @ le_bytes (ecx r) @ le_bytes (edx r)"

definition signature_matches :: "hvm_consts \<Rightarrow> env \<Rightarrow> u32 \<Rightarrow> bool" where
  "signature_matches K E base = (signature_bytes (cpuid E base) = take 12 (HVM_CPUID_MAGIC K))"

text \<open>
  The scan \<^verbatim>\<open>for ( base = HVM_CPUID_MIN ; base <= HVM_CPUID_MAX ; base += HVM_CPUID_STEP )\<close>.
  For some values of the three constants the C loop never ends (a stride of 0, or a
  maximum so high that the counter wraps), so the scan is a partial function: \<open>None\<close>
  is the loop that does not return, \<open>Some (Some base)\<close> the leaf found and \<open>Some None\<close>
  the scan that ends without a match.
\<close>

partial_function (option) cpuid_scan :: "hvm_consts \<Rightarrow> env \<Rightarrow> u32 \<Rightarrow> u32 option option" where
  "cpuid_scan K E base =
     (if base \<le> HVM_CPUID_MAX K then
        (if signature_matches K E base then Some (Some base)
         else cpuid_scan K E (base + HVM_CPUID_STEP K))
      else Some None)"

declare cpuid_scan.simps [code]

text \<open>
  \<^verbatim>\<open>hvm_cpuid_base\<close>. The version leaf is read for the debug message only. CPUID is an
  instruction, not a call to a collaborator, and is not recorded.
\<close>

definition hvm_cpuid_base :: "hvm_consts \<Rightarrow> env \<Rightarrow> hvm_device \<Rightarrow> (rc \<times> hvm_device) option" where
  "hvm_cpuid_base K E hvm =
     (case cpuid_scan K E (HVM_CPUID_MIN K) of
        None \<Rightarrow> None
      | Some (Some base) \<Rightarrow>
          (let version = eax (cpuid E (base + HVM_CPUID_VERSION K))
           in Some (None, hvm \<lparr> cpuid_base := base \<rparr>))
      | Some None \<Rightarrow> Some (Some ENODEV, hvm))"

subsection \<open>The hypercall page(s)\<close>

definition hvm_map_hypercall ::
  "hvm_consts \<Rightarrow> env \<Rightarrow> hvm_device \<Rightarrow> event list \<Rightarrow> rc \<times> hvm_device \<times> event list"
where
  "hvm_map_hypercall K E hvm tr =
     (let regs = cpuid E (cpuid_base hvm + HVM_CPUID_PAGES K);
          pages = eax regs;
          msr = ebx regs;
          hvm1 = hvm \<lparr> hypercall_len := pages * PAGE_SIZE K \<rparr>;
          p = malloc_dma E tr (hypercall_len hvm1) (PAGE_SIZE K);
          hvm2 = hvm1 \<lparr> hypercall := p \<rparr>;
          tr1 = tr @ [Malloc_dma (hypercall_len hvm1) (PAGE_SIZE K) p]
      in if p = 0 then (Some ENOMEM, hvm2, tr1)
         else
           (let hypercall_phys = virt_to_phys E p;
                tr2 = tr1 @ [Wrmsr msr hypercall_phys];
                version = xenver_version E tr2;
                tr3 = tr2 @ [Xenver_version];
                xenrc = xenver_extraversion E tr3;
                tr4 = tr3 @ [Xenver_extraversion]
            in if xenrc \<noteq> 0 then (Some (EXEN xenrc), hvm2, tr4)
               else (None, hvm2, tr4)))"

definition hvm_unmap_hypercall :: "hvm_consts \<Rightarrow> env \<Rightarrow> hvm_device \<Rightarrow> event list \<Rightarrow> event list" where
  "hvm_unmap_hypercall K E hvm tr = tr @ [Free_dma (hypercall hvm) (hypercall_len hvm)]"

subsection \<open>The shared info page\<close>

text \<open>
  The read of \<^verbatim>\<open>wc_sec\<close> is an argument of the debug message; its value goes nowhere else.
  The call of \<^verbatim>\<open>hvm_iounmap\<close> before the label \<^verbatim>\<open>err_alloc\<close> follows a \<^verbatim>\<open>return\<close> and is
  never reached.
\<close>

definition hvm_map_shared_info ::
  "hvm_consts \<Rightarrow> env \<Rightarrow> hvm_device \<Rightarrow> event list \<Rightarrow> rc \<times> hvm_device \<times> event list"
where
  "hvm_map_shared_info K E hvm tr =
     (case hvm_ioremap K E hvm tr (XENMAPSPACE_shared_info K) 1 of
        (p, hvm1, tr1) \<Rightarrow>
          (let hvm2 = hvm1 \<lparr> shared := p \<rparr>
           in if p = 0 then (Some ENOMEM, hvm2, tr1)
              else
                (let wc_sec = readl E tr1 p
                 in (None, hvm2, tr1 @ [Readl p]))))"

definition hvm_unmap_shared_info :: "hvm_consts \<Rightarrow> env \<Rightarrow> hvm_device \<Rightarrow> event list \<Rightarrow> event list" where
  "hvm_unmap_shared_info K E hvm tr = hvm_iounmap K E hvm tr (shared hvm) 1"

subsection \<open>The grant table\<close>

definition hvm_map_grant ::
  "hvm_consts \<Rightarrow> env \<Rightarrow> hvm_device \<Rightarrow> event list \<Rightarrow> rc \<times> hvm_device \<times> event list"
where
  "hvm_map_grant K E hvm tr =
     (case xengrant_query_size E tr of
        (xenrc, nr_frames) \<Rightarrow>
          (let tr1 = tr @ [Query_size (DOMID_SELF K)]
           in if xenrc \<noteq> 0 then (Some (EXEN xenrc), hvm, tr1)
              else
                (let len = nr_frames * PAGE_SIZE K in
                 case xengrant_set_version E tr1 2 of
                   (xenrc, version) \<Rightarrow>
                     (let tr2 = tr1 @ [Set_version 2]
                      in if xenrc \<noteq> 0 then (Some (EXEN xenrc), hvm, tr2)
                         else if version \<noteq> 2 then (Some ENOTTY, hvm, tr2)
                         else
                           (case hvm_ioremap K E hvm tr2 (XENMAPSPACE_grant_table K) nr_frames of
                              (p, hvm1, tr3) \<Rightarrow>
                                (let hvm2 = hvm1 \<lparr> grant_table := p \<rparr>
                                 in if p = 0 then (Some ENODEV, hvm2, tr3)
                                    else (None, hvm2 \<lparr> grant_count := len div grant_entry_size K \<rparr>, tr3)))))))"

definition hvm_unmap_grant :: "hvm_consts \<Rightarrow> env \<Rightarrow> hvm_device \<Rightarrow> event list \<Rightarrow> event list" where
  "hvm_unmap_grant K E hvm tr =
     (let len = grant_count hvm * grant_entry_size K
      in hvm_iounmap K E hvm tr (grant_table hvm) (len div PAGE_SIZE K))"

subsection \<open>XenStore\<close>

text \<open>
  \<^verbatim>\<open>xenstore_phys\<close> is a \<^verbatim>\<open>physaddr_t\<close>: the product of the 64-bit frame number and the page
  size is cut to 32 bits. The event channel is stored in a 32-bit port field.
\<close>

definition hvm_map_xenstore ::
  "hvm_consts \<Rightarrow> env \<Rightarrow> hvm_device \<Rightarrow> event list \<Rightarrow> rc \<times> hvm_device \<times> event list"
where
  "hvm_map_xenstore K E hvm tr =
     (case xen_hvm_get_param E tr (HVM_PARAM_STORE_EVTCHN K) of
        (xenrc, xenstore_evtchn) \<Rightarrow>
          (let tr1 = tr @ [Get_param (HVM_PARAM_STORE_EVTCHN K)]
           in if xenrc \<noteq> 0 then (Some (EXEN xenrc), hvm, tr1)
              else
                (let hvm1 = hvm \<lparr> store_port := ucast xenstore_evtchn \<rparr> in
                 case xen_hvm_get_param E tr1 (HVM_PARAM_STORE_PFN K) of
                   (xenrc, xenstore_pfn) \<Rightarrow>
                     (let tr2 = tr1 @ [Get_param (HVM_PARAM_STORE_PFN K)]
                      in if xenrc \<noteq> 0 then (Some (EXEN xenrc), hvm1, tr2)
                         else
                           (let xenstore_phys = (ucast (xenstore_pfn * ucast (PAGE_SIZE K)) :: u32);
                                p = ioremap E tr2 xenstore_phys (PAGE_SIZE K);
                                hvm2 = hvm1 \<lparr> store_intf := p \<rparr>;
                                tr3 = tr2 @ [Ioremap xenstore_phys (PAGE_SIZE K) p]
                            in if p = 0 then (Some ENODEV, hvm2, tr3)
                               else
                                 (let rc = xenstore_read E tr3 ''name'';
                                      tr4 = tr3 @ [Xenstore_read ''name'']
                                  in if rc \<noteq> None then (rc, hvm2, tr4)
                                     else (None, hvm2, tr4)))))))"

definition hvm_unmap_xenstore :: "hvm_consts \<Rightarrow> env \<Rightarrow> hvm_device \<Rightarrow> event list \<Rightarrow> event list" where
  "hvm_unmap_xenstore K E hvm tr = tr @ [Iounmap (store_intf hvm)]"

subsection \<open>Attach and detach\<close>

text \<open>
  The labels at the end of \<^verbatim>\<open>hvm_probe\<close>, each falling through to the next. \<open>p\<close> is the
  pointer \<^verbatim>\<open>zalloc\<close> returned for the device structure.
\<close>

definition err_cpuid_base :: "hvm_consts \<Rightarrow> env \<Rightarrow> addr \<Rightarrow> hvm_device \<Rightarrow> event list \<Rightarrow> event list" where
  "err_cpuid_base K E p hvm tr = tr @ [Free p]"

definition err_map_hypercall :: "hvm_consts \<Rightarrow> env \<Rightarrow> addr \<Rightarrow> hvm_device \<Rightarrow> event list \<Rightarrow> event list" where
  "err_map_hypercall K E p hvm tr = err_cpuid_base K E p hvm tr"

definition err_map_shared_info :: "hvm_consts \<Rightarrow> env \<Rightarrow> addr \<Rightarrow> hvm_device \<Rightarrow> event list \<Rightarrow> event list" where
  "err_map_shared_info K E p hvm tr = err_map_hypercall K E p hvm (hvm_unmap_hypercall K E hvm tr)"

definition err_map_grant :: "hvm_consts \<Rightarrow> env \<Rightarrow> addr \<Rightarrow> hvm_device \<Rightarrow> event list \<Rightarrow> event list" where
  "err_map_grant K E p hvm tr = err_map_shared_info K E p hvm (hvm_unmap_shared_info K E hvm tr)"

definition err_map_xenstore :: "hvm_consts \<Rightarrow> env \<Rightarrow> addr \<Rightarrow> hvm_device \<Rightarrow> event list \<Rightarrow> event list" where
  "err_map_xenstore K E p hvm tr = err_map_grant K E p hvm (hvm_unmap_grant K E hvm tr)"

definition err_xenbus_probe :: "hvm_consts \<Rightarrow> env \<Rightarrow> addr \<Rightarrow> hvm_device \<Rightarrow> event list \<Rightarrow> event list" where
  "err_xenbus_probe K E p hvm tr = err_map_xenstore K E p hvm (hvm_unmap_xenstore K E hvm tr)"

text \<open>The structure \<^verbatim>\<open>zalloc\<close> returns: every field zero.\<close>

definition zeroed :: hvm_device where
  "zeroed = \<lparr> hypercall = 0, shared = 0, grant_table = 0, grant_count = 0, store_intf = 0,
              store_port = 0, cpuid_base = 0, hypercall_len = 0, mmio = 0, mmio_offset = 0,
              mmio_len = 0 \<rparr>"

text \<open>
  \<^verbatim>\<open>hvm_probe\<close> returns the status, the device structure it registered with
  \<^verbatim>\<open>pci_set_drvdata\<close> (on success only; on failure the structure is freed) and the calls
  made. The whole result is \<open>None\<close> when the signature scan does not return.
\<close>

definition hvm_probe ::
  "hvm_consts \<Rightarrow> env \<Rightarrow> event list \<Rightarrow> (rc \<times> (addr \<times> hvm_device) option \<times> event list) option"
where
  "hvm_probe K E tr =
     (let p = zalloc E tr;
          tr0 = tr @ [Zalloc p]
      in if p = 0 then Some (Some ENOMEM, None, tr0)
         else
           (let hvm0 = zeroed \<lparr> mmio := pci_bar_start E, mmio_len := pci_bar_size E \<rparr>;
                tr1 = tr0 @ [Adjust_pci_device]
            in case hvm_cpuid_base K E hvm0 of
                 None \<Rightarrow> None
               | Some (rc, hvm1) \<Rightarrow>
                   if rc \<noteq> None then Some (rc, None, err_cpuid_base K E p hvm1 tr1)
                   else
                     (case hvm_map_hypercall K E hvm1 tr1 of
                        (rc, hvm2, tr2) \<Rightarrow>
                          if rc \<noteq> None then Some (rc, None, err_map_hypercall K E p hvm2 tr2)
                          else
                            (case hvm_map_shared_info K E hvm2 tr2 of
                               (rc, hvm3, tr3) \<Rightarrow>
                                 if rc \<noteq> None then Some (rc, None, err_map_shared_info K E p hvm3 tr3)
                                 else
                                   (case hvm_map_grant K E hvm3 tr3 of
                                      (rc, hvm4, tr4) \<Rightarrow>
                                        if rc \<noteq> None then Some (rc, None, err_map_grant K E p hvm4 tr4)
                                        else
                                          (case hvm_map_xenstore K E hvm4 tr4 of
                                             (rc, hvm5, tr5) \<Rightarrow>
                                               if rc \<noteq> None then Some (rc, None, err_map_xenstore K E p hvm5 tr5)
                                               else
                                                 (let rc = xenbus_probe E tr5;
                                                      tr6 = tr5 @ [Xenbus_probe]
                                                  in if rc \<noteq> None then Some (rc, None, err_xenbus_probe K E p hvm5 tr6)
                                                     else Some (None, Some (p, hvm5), tr6 @ [Pci_set_drvdata p]))))))))"

definition hvm_remove :: "hvm_consts \<Rightarrow> env \<Rightarrow> addr \<Rightarrow> hvm_device \<Rightarrow> event list \<Rightarrow> event list" where
  "hvm_remove K E p hvm tr =
     (let tr1 = tr @ [Xenbus_remove];
          tr2 = hvm_unmap_xenstore K E hvm tr1;
          tr3 = hvm_unmap_grant K E hvm tr2;
          tr4 = hvm_unmap_shared_info K E hvm tr3;
          tr5 = hvm_unmap_hypercall K E hvm tr4
      in tr5 @ [Free p])"

subsection \<open>Concrete constants and environments\<close>

text \<open>
  The values of the constants as the iPXE and Xen headers give them for x86, and a
  cooperative environment: the Xen signature at the first leaf scanned, one hypercall page
  installed through MSR \<open>0x40000000\<close>, identity address translation, a 16 MiB MMIO window
  at \<open>0xf2000000\<close>, a grant table of two frames, and every call succeeding. In \<open>viridian\<close>
  (defined below) the first leaf carries another signature and the Xen leaves start at
  \<open>0x40000100\<close>.
\<close>

definition x86_consts :: hvm_consts where
  "x86_consts =
     \<lparr> PAGE_SIZE = 4096, HVM_CPUID_MIN = 0x40000000, HVM_CPUID_MAX = 0x4000ff00,
       HVM_CPUID_STEP = 0x100, HVM_CPUID_VERSION = 1, HVM_CPUID_PAGES = 2,
       HVM_CPUID_MAGIC = [0x58, 0x65, 0x6e, 0x56, 0x4d, 0x4d, 0x58, 0x65, 0x6e, 0x56, 0x4d, 0x4d],
       DOMID_SELF = 0x7ff0, XENMAPSPACE_shared_info = 0, XENMAPSPACE_grant_table = 1,
       HVM_PARAM_STORE_EVTCHN = 2, HVM_PARAM_STORE_PFN = 1, grant_entry_size = 16 \<rparr>"

definition xen_cpuid :: "u32 \<Rightarrow> cpuid_regs" where
  "xen_cpuid leaf =
     (if leaf = 0x40000000 then \<lparr> eax = 0x40000002, ebx = 0x566e6558, ecx = 0x65584d4d, edx = 0x4d4d566e \<rparr>
      else if leaf = 0x40000001 then \<lparr> eax = 0x00040004, ebx = 0, ecx = 0, edx = 0 \<rparr>
      else if leaf = 0x40000002 then \<lparr> eax = 1, ebx = 0x40000000, ecx = 0, edx = 0 \<rparr>
      else \<lparr> eax = 0, ebx = 0, ecx = 0, edx = 0 \<rparr>)"

definition good_env :: env where
  "good_env =
     \<lparr> cpuid = xen_cpuid,
       virt_to_phys = (\<lambda>v. v),
       zalloc = (\<lambda>tr. 0x00100000),
       pci_bar_start = 0xf2000000,
       pci_bar_size = 0x01000000,
       malloc_dma = (\<lambda>tr len align. 0x00200000),
       xenver_version = (\<lambda>tr. 0x00040004),
       xenver_extraversion = (\<lambda>tr. 0),
       ioremap = (\<lambda>tr phys len. phys),
       xenmem_add_to_physmap = (\<lambda>tr add. 0),
       xenmem_remove_from_physmap = (\<lambda>tr remove. 0),
       indeterminate_gpfn = (\<lambda>tr. 0xdeadbeef),
       xengrant_query_size = (\<lambda>tr. (0, 2)),
       xengrant_set_version = (\<lambda>tr v. (0, v)),
       xen_hvm_get_param = (\<lambda>tr key. (0, if key = 1 then 0xfeffc else 3)),
       xenstore_read = (\<lambda>tr key. None),
       xenbus_probe = (\<lambda>tr. None),
       readl = (\<lambda>tr a. 0x5f5e1000) \<rparr>"

subsection \<open>What a list of calls leaves allocated or mapped\<close>

text \<open>
  The resources of the attachment: the device structure on the heap, the DMA pages of the
  hypercall region, virtual mappings, and entries of the hypervisor's physical address map
  (a guest frame number that an accepted add request put there and no accepted remove
  request has taken out).
\<close>

datatype resource = Heap addr | Dma_pages addr | Mapping addr | Physmap_entry u32

fun acquires :: "event \<Rightarrow> resource option" where
  "acquires (Zalloc p) = (if p = 0 then None else Some (Heap p))"
| "acquires (Malloc_dma len align p) = (if p = 0 then None else Some (Dma_pages p))"
| "acquires (Ioremap phys len p) = (if p = 0 then None else Some (Mapping p))"
| "acquires (Add_to_physmap add xenrc) = (if xenrc = 0 then Some (Physmap_entry (a_gpfn add)) else None)"
| "acquires _ = None"

fun releases :: "event \<Rightarrow> resource option" where
  "releases (Free p) = Some (Heap p)"
| "releases (Free_dma p len) = Some (Dma_pages p)"
| "releases (Iounmap p) = Some (Mapping p)"
| "releases (Remove_from_physmap remove xenrc) = (if xenrc = 0 then Some (Physmap_entry (r_gpfn remove)) else None)"
| "releases _ = None"

definition account :: "resource list \<Rightarrow> event \<Rightarrow> resource list" where
  "account h ev =
     (case releases ev of
        Some r \<Rightarrow> remove1 r h
      | None \<Rightarrow> (case acquires ev of Some r \<Rightarrow> h @ [r] | None \<Rightarrow> h))"

definition held :: "event list \<Rightarrow> resource list" where
  "held tr = foldl account [] tr"

text \<open>Devices and environments that differ from the cooperative one in a single answer.\<close>

definition window :: hvm_device where
  "window = zeroed \<lparr> mmio := 0xf2000000, mmio_len := 0x01000000 \<rparr>"


definition one_page_used :: hvm_device where
  "one_page_used = window \<lparr> mmio_offset := 0x1000 \<rparr>"

definition located :: hvm_device where
  "located = window \<lparr> cpuid_base := 0x40000000 \<rparr>"

definition no_hypervisor :: env where
  "no_hypervisor = good_env \<lparr> cpuid := (\<lambda>leaf. \<lparr> eax = 0, ebx = 0, ecx = 0, edx = 0 \<rparr>) \<rparr>"

definition viridian :: env where
  "viridian =
     good_env \<lparr> cpuid := (\<lambda>leaf.
       if leaf = 0x40000000 then \<lparr> eax = 0x40000006, ebx = 0x7263694d, ecx = 0x666f736f, edx = 0x76482074 \<rparr>
       else xen_cpuid (leaf - 0x100)) \<rparr>"

definition third_add_fails :: "u32 \<Rightarrow> env" where
  "third_add_fails g =
     good_env \<lparr> xenmem_add_to_physmap := (\<lambda>tr add. if a_idx add = 2 then - 22 else 0),
                indeterminate_gpfn := (\<lambda>tr. g) \<rparr>"

definition first_add_fails :: env where
  "first_add_fails = good_env \<lparr> xenmem_add_to_physmap := (\<lambda>tr add. - 22) \<rparr>"

definition version_query_fails :: env where
  "version_query_fails = good_env \<lparr> xenver_version := (\<lambda>tr. - 38) \<rparr>"

definition extraversion_fails :: env where
  "extraversion_fails = good_env \<lparr> xenver_extraversion := (\<lambda>tr. - 38) \<rparr>"



definition reports_version_3 :: env where
  "reports_version_3 = good_env \<lparr> xengrant_set_version := (\<lambda>tr v. (0, 3)) \<rparr>"







definition xenstore_read_fails :: env where
  "xenstore_read_fails = good_env \<lparr> xenstore_read := (\<lambda>tr key. Some (Errno 5)) \<rparr>"

subsection \<open>The attach sequence as the specification words it\<close>

text \<open>
  The specification describes attach as a list of stages, each pushing an undo action
  when it succeeds, the actions being popped and run on failure and on detach. These
  definitions follow those words; \<open>hvm_probe\<close> and \<open>hvm_remove\<close> above follow the source.
\<close>

datatype stage = Transport | Shared_info | Grant_table | Control_plane | Bus

definition all_stages :: "stage list" where
  "all_stages = [Transport, Shared_info, Grant_table, Control_plane, Bus]"

fun acquire ::
  "hvm_consts \<Rightarrow> env \<Rightarrow> stage \<Rightarrow> hvm_device \<Rightarrow> event list \<Rightarrow> rc \<times> hvm_device \<times> event list"
where
  "acquire K E Transport hvm tr = hvm_map_hypercall K E hvm tr"
| "acquire K E Shared_info hvm tr = hvm_map_shared_info K E hvm tr"
| "acquire K E Grant_table hvm tr = hvm_map_grant K E hvm tr"
| "acquire K E Control_plane hvm tr = hvm_map_xenstore K E hvm tr"
| "acquire K E Bus hvm tr = (xenbus_probe E tr, hvm, tr @ [Xenbus_probe])"

fun release :: "hvm_consts \<Rightarrow> env \<Rightarrow> stage \<Rightarrow> hvm_device \<Rightarrow> event list \<Rightarrow> event list" where
  "release K E Transport hvm tr = hvm_unmap_hypercall K E hvm tr"
| "release K E Shared_info hvm tr = hvm_unmap_shared_info K E hvm tr"
| "release K E Grant_table hvm tr = hvm_unmap_grant K E hvm tr"
| "release K E Control_plane hvm tr = hvm_unmap_xenstore K E hvm tr"
| "release K E Bus hvm tr = tr @ [Xenbus_remove]"

text \<open>Releasing a list of stages, the head first.\<close>

fun release_each :: "hvm_consts \<Rightarrow> env \<Rightarrow> stage list \<Rightarrow> hvm_device \<Rightarrow> event list \<Rightarrow> event list" where
  "release_each K E [] hvm tr = tr"
| "release_each K E (s # ss) hvm tr = release_each K E ss hvm (release K E s hvm tr)"

text \<open>
  Acquiring a list of stages in order. \<open>undo\<close> is the stack of the stages completed, the
  newest on top. The result is the status, the stack, the device and the calls made up to
  the end of the last stage run.
\<close>

fun acquire_each ::
  "hvm_consts \<Rightarrow> env \<Rightarrow> stage list \<Rightarrow> stage list \<Rightarrow> hvm_device \<Rightarrow> event list \<Rightarrow>
   rc \<times> stage list \<times> hvm_device \<times> event list"
where
  "acquire_each K E [] undo hvm tr = (None, undo, hvm, tr)"
| "acquire_each K E (s # todo) undo hvm tr =
     (case acquire K E s hvm tr of
        (None, hvm', tr') \<Rightarrow> acquire_each K E todo (s # undo) hvm' tr'
      | (Some e, hvm', tr') \<Rightarrow> (Some e, undo, hvm', tr'))"

subsection \<open>The leaves of the signature scan\<close>

text \<open>
  The \<open>j\<close>-th leaf the scan reads, as the loop computes it, and its position as a natural
  number. A leaf is in the scanned range when its position is at most the maximum.
\<close>

fun leaf :: "hvm_consts \<Rightarrow> nat \<Rightarrow> u32" where
  "leaf K 0 = HVM_CPUID_MIN K"
| "leaf K (Suc j) = leaf K j + HVM_CPUID_STEP K"

definition leaf_pos :: "hvm_consts \<Rightarrow> nat \<Rightarrow> nat" where
  "leaf_pos K j = unat (HVM_CPUID_MIN K) + j * unat (HVM_CPUID_STEP K)"

definition first_match :: "hvm_consts \<Rightarrow> env \<Rightarrow> nat \<Rightarrow> bool" where
  "first_match K E j =
     (leaf_pos K j \<le> unat (HVM_CPUID_MAX K) \<and> signature_matches K E (leaf K j) \<and>
      (\<forall>i<j. \<not> signature_matches K E (leaf K i)))"

definition no_match :: "hvm_consts \<Rightarrow> env \<Rightarrow> bool" where
  "no_match K E =
     (\<forall>j. leaf_pos K j \<le> unat (HVM_CPUID_MAX K) \<longrightarrow> \<not> signature_matches K E (leaf K j))"

section \<open>Properties\<close>

subsection \<open>The scan in two of the environments\<close>

lemma no_hypervisor_scan: "cpuid_scan x86_consts no_hypervisor 0x40000000 = Some None"
  by code_simp

lemma viridian_scan: "cpuid_scan x86_consts viridian 0x40000000 = Some (Some 0x40000100)"
  by code_simp

subsection \<open>Rollback inside \<^verbatim>\<open>hvm_ioremap\<close>\<close>

text \<open>
  What the rollback loop requests, for any counter and any environment: as many removals
  as the counter, read as a signed integer, plus one, and every one of them with the
  frame number \<open>remove\<close> came with.
\<close>

lemma rollback_loop_trace:
  "\<exists>rs. rollback_loop K E remove i tr = tr @ rs \<and> length rs = nat (sint i + 1) \<and>
        (\<forall>ev\<in>set rs. \<exists>xenrc.
           ev = Remove_from_physmap \<lparr> r_domid = DOMID_SELF K, r_gpfn = r_gpfn remove \<rparr> xenrc)"
proof (induction K E remove i tr rule: rollback_loop.induct)
  case (1 K E remove i tr)
  show ?case
  proof (cases "0 \<le> sint i")
    case True
    let ?r = "remove \<lparr> r_domid := DOMID_SELF K \<rparr>"
    let ?ev = "Remove_from_physmap ?r (xenmem_remove_from_physmap E tr ?r)"
    from 1 [OF True refl refl] obtain rs where
      rs: "rollback_loop K E ?r (i - 1) (tr @ [?ev]) = (tr @ [?ev]) @ rs"
        "length rs = nat (sint (i - 1) + 1)"
        "\<forall>ev\<in>set rs. \<exists>xenrc.
           ev = Remove_from_physmap \<lparr> r_domid = DOMID_SELF K, r_gpfn = r_gpfn ?r \<rparr> xenrc"
      by blast
    have "rollback_loop K E remove i tr = tr @ (?ev # rs)"
      using True rs(1) by (subst rollback_loop.simps) (simp add: Let_def)
    moreover have "length (?ev # rs) = nat (sint i + 1)"
      using True rs(2) by (simp add: sint_pred_nonneg)
    moreover have "\<forall>ev\<in>set (?ev # rs). \<exists>xenrc.
        ev = Remove_from_physmap \<lparr> r_domid = DOMID_SELF K, r_gpfn = r_gpfn remove \<rparr> xenrc"
      using rs(3) by auto
    ultimately show ?thesis by blast
  next
    case False
    then show ?thesis
      by (subst rollback_loop.simps) simp
  qed
qed

text \<open>
  Claim C1: when the k-th add request of a call of \<^verbatim>\<open>hvm_ioremap\<close> fails, the k-1 pages
  added before are removed in descending order, each removal naming the frame that was
  added, then the mapping is released, the call fails and none of its pages stays in the
  physical address map.

  The code does not do this. With three pages requested and the third request refused,
  it issues two remove requests and releases the mapping, but both requests carry whatever
  \<^verbatim>\<open>remove.gpfn\<close> held on entry (\<open>g\<close> below) instead of frames 991233 and 991232: the loop
  stores the frame number into \<^verbatim>\<open>add.gpfn\<close>. \<^verbatim>\<open>hvm_iounmap\<close> stores it into \<^verbatim>\<open>remove.gpfn\<close>.
\<close>

theorem hvm_ioremap_rollback_names_no_frame:
  "hvm_ioremap x86_consts (third_add_fails g) window [] 1 3 =
     (0, window,
      [Ioremap 0xf2000000 0x3000 0xf2000000,
       Add_to_physmap \<lparr> a_domid = 0x7ff0, a_idx = 0, a_space = 1, a_gpfn = 991232 \<rparr> 0,
       Add_to_physmap \<lparr> a_domid = 0x7ff0, a_idx = 1, a_space = 1, a_gpfn = 991233 \<rparr> 0,
       Add_to_physmap \<lparr> a_domid = 0x7ff0, a_idx = 2, a_space = 1, a_gpfn = 991234 \<rparr> (- 22),
       Remove_from_physmap \<lparr> r_domid = 0x7ff0, r_gpfn = g \<rparr> 0,
       Remove_from_physmap \<lparr> r_domid = 0x7ff0, r_gpfn = g \<rparr> 0,
       Iounmap 0xf2000000])"
  by (simp add: hvm_ioremap_def third_add_fails_def good_env_def window_def zeroed_def
      x86_consts_def add_loop.simps rollback_loop.simps Let_def)

lemma rollback_leaves_frames:
  "held (snd (snd (hvm_ioremap x86_consts (third_add_fails 0xdeadbeef) window [] 1 3))) =
     [Physmap_entry 991232, Physmap_entry 991233]"
  by (simp add: hvm_ioremap_def third_add_fails_def good_env_def window_def zeroed_def
      x86_consts_def add_loop.simps rollback_loop.simps Let_def held_def account_def)

subsection \<open>Resources after a failed attach\<close>

text \<open>
  Claim C2: after any operation of the attach or detach sequence returns, every field
  that references memory is fully valid or released; when the check after installing the
  hypercall page fails, and when the sanity read of XenStore fails, what the operation
  allocated or mapped is released before the failure is returned, and nothing stays held
  after \<^verbatim>\<open>hvm_probe\<close> returns an error.

  The code does not do this. \<^verbatim>\<open>hvm_map_hypercall\<close> and \<^verbatim>\<open>hvm_map_xenstore\<close> return
  straight from the failed check, and \<^verbatim>\<open>hvm_probe\<close> then unwinds only the earlier stages:
  the DMA pages of the hypercall region, respectively the mapping of the XenStore page,
  stay allocated.
\<close>

theorem hvm_probe_failed_check_leaks:
  "map_option (\<lambda>(rc, drvdata, tr). (rc, drvdata, held tr)) (hvm_probe x86_consts extraversion_fails []) =
     Some (Some (EXEN (- 38)), None, [Dma_pages 0x00200000]) \<and>
   map_option (\<lambda>(rc, drvdata, tr). (rc, drvdata, held tr)) (hvm_probe x86_consts xenstore_read_fails []) =
     Some (Some (Errno 5), None, [Mapping 0xfeffc000])"
  by code_simp

text \<open>
  The same for every environment: when the extended-version query fails, the calls of
  \<open>hvm_probe\<close> end with the query and the release of the device structure, and the pages
  that \<^verbatim>\<open>malloc_dma\<close> returned are not freed.
\<close>

lemma hvm_probe_transport_check_fails:
  assumes "zalloc E tr = p" and "p \<noteq> 0"
    and "hvm_cpuid_base K E (zeroed \<lparr> mmio := pci_bar_start E, mmio_len := pci_bar_size E \<rparr>) =
           Some (None, hvm1)"
    and "regs = cpuid E (cpuid_base hvm1 + HVM_CPUID_PAGES K)"
    and "tr1 = tr @ [Zalloc p, Adjust_pci_device]"
    and "malloc_dma E tr1 (eax regs * PAGE_SIZE K) (PAGE_SIZE K) = q" and "q \<noteq> 0"
    and "tr2 = tr1 @ [Malloc_dma (eax regs * PAGE_SIZE K) (PAGE_SIZE K) q,
                      Wrmsr (ebx regs) (virt_to_phys E q), Xenver_version]"
    and "xenver_extraversion E tr2 = xenrc" and "xenrc \<noteq> 0"
  shows "hvm_probe K E tr = Some (Some (EXEN xenrc), None, tr2 @ [Xenver_extraversion, Free p])"
  using assms
  by (simp add: hvm_probe_def hvm_map_hypercall_def err_map_hypercall_def err_cpuid_base_def
      Let_def)

text \<open>In the cooperative environment, attach followed by detach gives everything back.\<close>

lemma attach_then_detach_releases_everything:
  "(case hvm_probe x86_consts good_env [] of
      Some (rc, Some (p, hvm), tr) \<Rightarrow> (rc, held tr, held (hvm_remove x86_consts good_env p hvm tr))) =
   (None,
    [Heap 0x00100000, Dma_pages 0x00200000, Mapping 0xf2000000, Physmap_entry 991232,
     Mapping 0xf2001000, Physmap_entry 991233, Physmap_entry 991234, Mapping 0xfeffc000],
    [])"
  by code_simp

subsection \<open>The check after installing the hypercall page\<close>

text \<open>
  Claim C3, as stated: after writing the MSR, \<^verbatim>\<open>hvm_map_hypercall\<close> issues the version and
  the extended-version query, a failure of either makes it return the wrapped hypervisor
  status, and it succeeds only if both succeeded.

  This fails for the first query: its result is stored for the debug message and never
  tested. Here it answers \<open>- 38\<close> and the function returns success.
\<close>

theorem hvm_map_hypercall_unchecked_version:
  "xenver_version version_query_fails
     [Malloc_dma 0x1000 0x1000 0x00200000, Wrmsr 0x40000000 0x00200000] = - 38 \<and>
   hvm_map_hypercall x86_consts version_query_fails located [] =
     (None, located \<lparr> hypercall_len := 0x1000, hypercall := 0x00200000 \<rparr>,
      [Malloc_dma 0x1000 0x1000 0x00200000, Wrmsr 0x40000000 0x00200000,
       Xenver_version, Xenver_extraversion])"
  by (simp add: hvm_map_hypercall_def version_query_fails_def good_env_def located_def
      window_def zeroed_def x86_consts_def xen_cpuid_def Let_def)

text \<open>
  Claim C3, amended: once the pages are allocated, \<^verbatim>\<open>hvm_map_hypercall\<close> writes the MSR and
  then issues the version query and the extended-version query, in this order. It returns
  \<open>EXEN xenrc\<close> when the extended-version query returns a status \<open>xenrc\<close> other than 0 and
  success when that status is 0. The answer to the version query changes nothing.
\<close>

theorem hvm_map_hypercall_check:
  assumes "regs = cpuid E (cpuid_base hvm + HVM_CPUID_PAGES K)"
    and "p = malloc_dma E tr (eax regs * PAGE_SIZE K) (PAGE_SIZE K)"
    and "p \<noteq> 0"
    and "tr3 = tr @ [Malloc_dma (eax regs * PAGE_SIZE K) (PAGE_SIZE K) p,
                     Wrmsr (ebx regs) (virt_to_phys E p), Xenver_version]"
    and "xenrc = xenver_extraversion E tr3"
  shows "hvm_map_hypercall K E hvm tr =
           (if xenrc = 0 then None else Some (EXEN xenrc),
            hvm \<lparr> hypercall_len := eax regs * PAGE_SIZE K, hypercall := p \<rparr>,
            tr3 @ [Xenver_extraversion]) \<and>
         hvm_map_hypercall K (E \<lparr> xenver_version := v \<rparr>) hvm tr = hvm_map_hypercall K E hvm tr"
  using assms by (simp add: hvm_map_hypercall_def Let_def)

theorem hvm_map_hypercall_check_witness:
  "hvm_map_hypercall x86_consts extraversion_fails located [] =
     (Some (EXEN (- 38)), located \<lparr> hypercall_len := 0x1000, hypercall := 0x00200000 \<rparr>,
      [Malloc_dma 0x1000 0x1000 0x00200000, Wrmsr 0x40000000 0x00200000,
       Xenver_version, Xenver_extraversion]) \<and>
   hvm_map_hypercall x86_consts (extraversion_fails \<lparr> xenver_version := (\<lambda>tr. - 38) \<rparr>) located [] =
     hvm_map_hypercall x86_consts extraversion_fails located []"
  using hvm_map_hypercall_check [where K = x86_consts and E = extraversion_fails
      and hvm = located and tr = "[]" and v = "\<lambda>tr. - 38", OF refl refl _ refl refl]
  by (simp add: extraversion_fails_def good_env_def located_def window_def zeroed_def
      x86_consts_def xen_cpuid_def)

subsection \<open>The status a component returns\<close>












subsection \<open>The version of the grant table\<close>

text \<open>
  Claim C5: when the request for version 2 returns success but the hypervisor reports a
  version other than 2, \<^verbatim>\<open>hvm_map_grant\<close> fails with the unsupported-version error
  (\<open>ENOTTY\<close>) and maps nothing: the list of calls ends with the version request,
  \<^verbatim>\<open>hvm_ioremap\<close> is not invoked, and the device structure is unchanged.
\<close>

theorem hvm_map_grant_version_mismatch:
  assumes "xengrant_query_size E tr = (0, nr_frames)"
    and "xengrant_set_version E (tr @ [Query_size (DOMID_SELF K)]) 2 = (0, version)"
    and "version \<noteq> 2"
  shows "hvm_map_grant K E hvm tr =
           (Some ENOTTY, hvm, tr @ [Query_size (DOMID_SELF K), Set_version 2])"
  using assms by (simp add: hvm_map_grant_def Let_def)

theorem hvm_map_grant_version_mismatch_witness:
  "hvm_map_grant x86_consts reports_version_3 window [] =
     (Some ENOTTY, window, [Query_size 0x7ff0, Set_version 2])"
  using hvm_map_grant_version_mismatch [where K = x86_consts and E = reports_version_3
      and hvm = window and tr = "[]" and nr_frames = 2 and version = 3]
  by (simp add: reports_version_3_def good_env_def x86_consts_def)

subsection \<open>Teardown in reverse order\<close>

lemma acquire_each_undo:
  "acquire_each K E todo undo hvm tr = (rc, undo', hvm', tr') \<Longrightarrow>
   \<exists>n\<le>length todo. undo' = rev (take n todo) @ undo \<and>
     (rc = None \<longrightarrow> n = length todo) \<and> (rc \<noteq> None \<longrightarrow> n < length todo)"
proof (induction todo arbitrary: undo hvm tr)
  case Nil
  then show ?case by auto
next
  case (Cons s todo)
  obtain r h t where acq: "acquire K E s hvm tr = (r, h, t)"
    by (cases "acquire K E s hvm tr") auto
  show ?case
  proof (cases r)
    case None
    with Cons.prems acq have "acquire_each K E todo (s # undo) h t = (rc, undo', hvm', tr')"
      by simp
    from Cons.IH [OF this] obtain n where
      "n \<le> length todo" "undo' = rev (take n todo) @ s # undo"
      "rc = None \<longrightarrow> n = length todo" "rc \<noteq> None \<longrightarrow> n < length todo"
      by blast
    then show ?thesis
      by (intro exI [of _ "Suc n"]) auto
  next
    case (Some e)
    with Cons.prems acq have "undo' = undo" "rc \<noteq> None"
      by auto
    then show ?thesis
      by (intro exI [of _ 0]) auto
  qed
qed

text \<open>
  Claim C6: teardown is in strict reverse order of acquisition. When attach fails at some
  stage, the releases run are exactly those of the stages completed, the newest first;
  after a full attach, detach releases in the reverse of the order of acquisition: bus,
  control plane, grant table, shared info, transport.

  Once the device structure is allocated and the hypervisor located, \<open>hvm_probe\<close> is the
  run of the five stages in order. \<open>undo\<close>, the stages completed, is the reverse of the
  first \<open>n\<close> stages; on failure (\<open>n < 5\<close>) \<open>hvm_probe\<close> releases exactly \<open>undo\<close>, top
  first, and frees the structure; on success all five stages are completed, and
  \<open>hvm_remove\<close> releases the reverse of all five and frees the structure.
\<close>

theorem hvm_probe_unwinds_in_reverse:
  assumes "zalloc E tr = p" and "p \<noteq> 0"
    and "hvm_cpuid_base K E (zeroed \<lparr> mmio := pci_bar_start E, mmio_len := pci_bar_size E \<rparr>) =
           Some (None, hvm1)"
    and "acquire_each K E all_stages [] hvm1 (tr @ [Zalloc p, Adjust_pci_device]) =
           (rc, undo, hvm', tr')"
  shows "(\<exists>n. undo = rev (take n all_stages) \<and> (if rc = None then n = 5 else n < 5)) \<and>
         hvm_probe K E tr =
           Some (if rc = None then (None, Some (p, hvm'), tr' @ [Pci_set_drvdata p])
                 else (rc, None, release_each K E undo hvm' tr' @ [Free p])) \<and>
         hvm_remove K E p hvm' tr'' = release_each K E (rev all_stages) hvm' tr'' @ [Free p]"
proof -
  from acquire_each_undo [OF assms(4)]
  have a: "\<exists>n. undo = rev (take n all_stages) \<and> (if rc = None then n = 5 else n < 5)"
    by (auto simp add: all_stages_def)
  have b: "hvm_probe K E tr =
           Some (if rc = None then (None, Some (p, hvm'), tr' @ [Pci_set_drvdata p])
                 else (rc, None, release_each K E undo hvm' tr' @ [Free p]))"
    using assms
    by (auto simp add: hvm_probe_def all_stages_def Let_def err_cpuid_base_def
        err_map_hypercall_def err_map_shared_info_def err_map_grant_def err_map_xenstore_def
        err_xenbus_probe_def split: prod.splits option.splits)
  have c: "hvm_remove K E p hvm' tr'' = release_each K E (rev all_stages) hvm' tr'' @ [Free p]"
    by (simp add: hvm_remove_def all_stages_def Let_def)
  from a b c show ?thesis by blast
qed

theorem hvm_probe_unwinds_in_reverse_witness:
  "(case acquire_each x86_consts xenstore_read_fails all_stages [] located
           [Zalloc 0x00100000, Adjust_pci_device] of
      (rc, undo, hvm', tr') \<Rightarrow>
        rc = Some (Errno 5) \<and> undo = [Grant_table, Shared_info, Transport] \<and>
        hvm_probe x86_consts xenstore_read_fails [] =
          Some (rc, None,
                release_each x86_consts xenstore_read_fails undo hvm' tr' @ [Free 0x00100000]) \<and>
        hvm_remove x86_consts xenstore_read_fails 0x00100000 hvm' [] =
          release_each x86_consts xenstore_read_fails
            [Bus, Control_plane, Grant_table, Shared_info, Transport] hvm' [] @ [Free 0x00100000])"
proof -
  obtain rc undo hvm' tr' where
    run: "acquire_each x86_consts xenstore_read_fails all_stages [] located
            [Zalloc 0x00100000, Adjust_pci_device] = (rc, undo, hvm', tr')"
    by (cases "acquire_each x86_consts xenstore_read_fails all_stages [] located
            [Zalloc 0x00100000, Adjust_pci_device]") auto
  have "fst (acquire_each x86_consts xenstore_read_fails all_stages [] located
            [Zalloc 0x00100000, Adjust_pci_device]) = Some (Errno 5)"
    by code_simp
  with run have rc: "rc = Some (Errno 5)"
    by simp
  have "fst (snd (acquire_each x86_consts xenstore_read_fails all_stages [] located
            [Zalloc 0x00100000, Adjust_pci_device])) = [Grant_table, Shared_info, Transport]"
    by code_simp
  with run have undo: "undo = [Grant_table, Shared_info, Transport]"
    by simp
  have z: "zalloc xenstore_read_fails [] = 0x00100000" "(0x00100000 :: addr) \<noteq> 0"
    by (simp_all add: xenstore_read_fails_def good_env_def)
  have base: "hvm_cpuid_base x86_consts xenstore_read_fails
                (zeroed \<lparr> mmio := pci_bar_start xenstore_read_fails,
                          mmio_len := pci_bar_size xenstore_read_fails \<rparr>) = Some (None, located)"
    by code_simp
  have run': "acquire_each x86_consts xenstore_read_fails all_stages [] located
            ([] @ [Zalloc 0x00100000, Adjust_pci_device]) = (rc, undo, hvm', tr')"
    using run by simp
  from hvm_probe_unwinds_in_reverse [OF z base run', of "[]"] rc undo run
  show ?thesis
    by (simp add: all_stages_def)
qed

subsection \<open>The space check of \<^verbatim>\<open>hvm_ioremap\<close>\<close>

text \<open>
  The check does what it is meant to do as long as neither the product
  \<^verbatim>\<open>pages * PAGE_SIZE\<close> nor its sum with the offset exceeds 32 bits.
\<close>

lemma ioremap_rejects_without_wrap:
  assumes "unat (mmio_offset hvm) + unat pages * unat (PAGE_SIZE K) < 2 ^ 32"
    and "unat (mmio_len hvm) - unat (mmio_offset hvm) < unat pages * unat (PAGE_SIZE K)"
  shows "hvm_ioremap K E hvm tr sp pages = (0, hvm, tr)"
proof -
  have m: "unat (pages * PAGE_SIZE K) = unat pages * unat (PAGE_SIZE K)"
    using assms(1) by (simp add: unat_word_ariths)
  have "unat (mmio_offset hvm + pages * PAGE_SIZE K) =
          unat (mmio_offset hvm) + unat pages * unat (PAGE_SIZE K)"
    using assms(1) m by (simp add: unat_word_ariths(1))
  with assms(2) have "mmio_len hvm < mmio_offset hvm + pages * PAGE_SIZE K"
    by (simp add: word_less_nat_alt)
  then show ?thesis
    by (simp add: hvm_ioremap_def Let_def)
qed

text \<open>
  Claim C7: a call of \<^verbatim>\<open>hvm_ioremap\<close> for more bytes than the window has left
  (\<open>page_count * page_size > length - offset\<close>) fails before any other work: no mapping is
  attempted, no add request is issued, the offset is unchanged.

  The code computes \<^verbatim>\<open>len = pages * PAGE_SIZE\<close> in 32 bits and does not check for
  wrap-around. A request for \<open>0x100000\<close> pages of 4096 bytes in an empty 16 MiB window has
  \<^verbatim>\<open>len = 0\<close>, passes the check, maps zero bytes and issues add requests.
\<close>

theorem hvm_ioremap_space_check_wraps:
  "hvm_ioremap x86_consts first_add_fails window [] 1 0x100000 =
     (0, window,
      [Ioremap 0xf2000000 0 0xf2000000,
       Add_to_physmap \<lparr> a_domid = 0x7ff0, a_idx = 0, a_space = 1, a_gpfn = 991232 \<rparr> (- 22),
       Iounmap 0xf2000000])"
  by (simp add: hvm_ioremap_def first_add_fails_def good_env_def window_def zeroed_def
      x86_consts_def add_loop.simps rollback_loop.simps Let_def)

subsection \<open>The signature scan\<close>

lemma unat_leaf: "leaf_pos K j < 2 ^ 32 \<Longrightarrow> unat (leaf K j) = leaf_pos K j"
proof (induction j)
  case 0
  then show ?case by (simp add: leaf_pos_def)
next
  case (Suc j)
  have "leaf_pos K (Suc j) = leaf_pos K j + unat (HVM_CPUID_STEP K)"
    by (simp add: leaf_pos_def)
  with Suc show ?case
    by (simp add: unat_word_ariths)
qed

lemma leaf_pos_mono: "0 < unat (HVM_CPUID_STEP K) \<Longrightarrow> leaf_pos K i < leaf_pos K j \<Longrightarrow> i < j"
  by (metis leaf_pos_def add_le_cancel_left linorder_not_less mult_le_mono1)

lemma cpuid_scan_from:
  assumes step: "0 < unat (HVM_CPUID_STEP K)"
    and nowrap: "unat (HVM_CPUID_MAX K) + unat (HVM_CPUID_STEP K) < 2 ^ 32"
  shows "leaf_pos K j \<le> unat (HVM_CPUID_MAX K) + unat (HVM_CPUID_STEP K) \<Longrightarrow>
         \<forall>i<j. \<not> signature_matches K E (leaf K i) \<Longrightarrow>
         (\<exists>n. cpuid_scan K E (leaf K j) = Some (Some (leaf K n)) \<and> first_match K E n) \<or>
         (cpuid_scan K E (leaf K j) = Some None \<and> no_match K E)"
proof (induction "unat (HVM_CPUID_MAX K) + unat (HVM_CPUID_STEP K) - leaf_pos K j"
    arbitrary: j rule: less_induct)
  case less
  have pos: "unat (leaf K j) = leaf_pos K j"
    using less.prems(1) nowrap by (intro unat_leaf) linarith
  show ?case
  proof (cases "leaf K j \<le> HVM_CPUID_MAX K")
    case True
    then have inr: "leaf_pos K j \<le> unat (HVM_CPUID_MAX K)"
      using pos by (simp add: word_le_nat_alt)
    show ?thesis
    proof (cases "signature_matches K E (leaf K j)")
      case m: True
      have "cpuid_scan K E (leaf K j) = Some (Some (leaf K j))"
        using True m by (subst cpuid_scan.simps) simp
      moreover have "first_match K E j"
        using inr m less.prems(2) by (simp add: first_match_def)
      ultimately show ?thesis by blast
    next
      case m: False
      have next_pos: "leaf_pos K (Suc j) = leaf_pos K j + unat (HVM_CPUID_STEP K)"
        by (simp add: leaf_pos_def)
      have "cpuid_scan K E (leaf K j) = cpuid_scan K E (leaf K (Suc j))"
        using True m by (subst cpuid_scan.simps) simp
      moreover have
        "(\<exists>n. cpuid_scan K E (leaf K (Suc j)) = Some (Some (leaf K n)) \<and> first_match K E n) \<or>
         (cpuid_scan K E (leaf K (Suc j)) = Some None \<and> no_match K E)"
      proof (rule less.hyps)
        show "unat (HVM_CPUID_MAX K) + unat (HVM_CPUID_STEP K) - leaf_pos K (Suc j)
              < unat (HVM_CPUID_MAX K) + unat (HVM_CPUID_STEP K) - leaf_pos K j"
          using inr step next_pos by linarith
        show "leaf_pos K (Suc j) \<le> unat (HVM_CPUID_MAX K) + unat (HVM_CPUID_STEP K)"
          using inr next_pos by linarith
        show "\<forall>i<Suc j. \<not> signature_matches K E (leaf K i)"
          using less.prems(2) m by (simp add: less_Suc_eq)
      qed
      ultimately show ?thesis by simp
    qed
  next
    case False
    then have beyond: "unat (HVM_CPUID_MAX K) < leaf_pos K j"
      using pos by (simp add: word_le_nat_alt)
    have "cpuid_scan K E (leaf K j) = Some None"
      using False by (subst cpuid_scan.simps) simp
    moreover have "no_match K E"
      unfolding no_match_def
    proof (intro allI impI)
      fix i
      assume "leaf_pos K i \<le> unat (HVM_CPUID_MAX K)"
      with beyond have "leaf_pos K i < leaf_pos K j" by linarith
      then have "i < j" using step by (rule leaf_pos_mono [rotated])
      with less.prems(2) show "\<not> signature_matches K E (leaf K i)" by blast
    qed
    ultimately show ?thesis by blast
  qed
qed

text \<open>The scan returns whenever the stride is not 0 and the counter cannot wrap.\<close>

lemma cpuid_scan_total:
  assumes step: "0 < unat (HVM_CPUID_STEP K)"
    and nowrap: "unat (HVM_CPUID_MAX K) + unat (HVM_CPUID_STEP K) < 2 ^ 32"
  shows "(\<exists>n. cpuid_scan K E (HVM_CPUID_MIN K) = Some (Some (leaf K n)) \<and> first_match K E n) \<or>
         (cpuid_scan K E (HVM_CPUID_MIN K) = Some None \<and> no_match K E)"
proof (cases "HVM_CPUID_MIN K \<le> HVM_CPUID_MAX K")
  case True
  then have "leaf_pos K 0 \<le> unat (HVM_CPUID_MAX K) + unat (HVM_CPUID_STEP K)"
    by (simp add: leaf_pos_def word_le_nat_alt)
  from cpuid_scan_from [OF step nowrap this, of E] show ?thesis
    by simp
next
  case False
  then have "cpuid_scan K E (HVM_CPUID_MIN K) = Some None"
    by (subst cpuid_scan.simps) simp
  moreover have "no_match K E"
    using False by (simp add: no_match_def leaf_pos_def word_le_nat_alt)
  ultimately show ?thesis by blast
qed

text \<open>
  Claim C8: for every CPUID environment the locator scans the leaves from the minimum to
  the maximum at the stride and returns the first one whose three registers equal the
  signature byte for byte; when no leaf of the range matches it returns the not-found
  error (\<open>ENODEV\<close>), and attach then stops without invoking any further component.

  The three constants come from a header; the statement holds for all values with which
  the C loop ends (a stride above 0 and a maximum that leaves room for one stride below
  \<open>2 ^ 32\<close>). In the second case \<open>hvm_probe\<close> makes three calls: it allocates the device
  structure, fixes up the PCI device and frees the structure.
\<close>

theorem hvm_cpuid_base_first_match:
  assumes "0 < unat (HVM_CPUID_STEP K)"
    and "unat (HVM_CPUID_MAX K) + unat (HVM_CPUID_STEP K) < 2 ^ 32"
    and "zalloc E tr = p" and "p \<noteq> 0"
  shows "(\<exists>n. first_match K E n \<and>
              hvm_cpuid_base K E hvm = Some (None, hvm \<lparr> cpuid_base := leaf K n \<rparr>)) \<or>
         (no_match K E \<and> hvm_cpuid_base K E hvm = Some (Some ENODEV, hvm) \<and>
          hvm_probe K E tr = Some (Some ENODEV, None, tr @ [Zalloc p, Adjust_pci_device, Free p]))"
  using cpuid_scan_total [OF assms(1,2), of E] assms(3,4)
  by (auto simp add: hvm_cpuid_base_def hvm_probe_def err_cpuid_base_def Let_def)

theorem hvm_cpuid_base_first_match_witness:
  "hvm_probe x86_consts no_hypervisor [] =
     Some (Some ENODEV, None, [Zalloc 0x00100000, Adjust_pci_device, Free 0x00100000]) \<and>
   (\<exists>n. first_match x86_consts viridian n \<and> leaf x86_consts n = 0x40000100)"
proof -
  have "hvm_cpuid_base x86_consts no_hypervisor zeroed = Some (Some ENODEV, zeroed)"
    using no_hypervisor_scan by (simp add: hvm_cpuid_base_def x86_consts_def)
  with hvm_cpuid_base_first_match [where K = x86_consts and E = no_hypervisor and tr = "[]"
      and p = "0x00100000" and hvm = zeroed]
  have absent: "hvm_probe x86_consts no_hypervisor [] =
     Some (Some ENODEV, None, [Zalloc 0x00100000, Adjust_pci_device, Free 0x00100000])"
    by (simp add: x86_consts_def no_hypervisor_def good_env_def)
  have "hvm_cpuid_base x86_consts viridian zeroed =
          Some (None, zeroed \<lparr> cpuid_base := 0x40000100 \<rparr>)"
    using viridian_scan by (simp add: hvm_cpuid_base_def x86_consts_def)
  with hvm_cpuid_base_first_match [where K = x86_consts and E = viridian and tr = "[]"
      and p = "0x00100000" and hvm = zeroed]
  have "\<exists>n. first_match x86_consts viridian n \<and> leaf x86_consts n = 0x40000100"
    by (simp add: x86_consts_def viridian_def good_env_def zeroed_def)
  with absent show ?thesis
    by blast
qed

subsection \<open>The offset of the MMIO window\<close>

lemma add_loop_accepted:
  "\<forall>tr add. xenmem_add_to_physmap E tr add = 0 \<Longrightarrow>
   fst (add_loop K E sp phys pages i tr) = None"
proof (induction K E sp phys pages i tr rule: add_loop.induct)
  case (1 K E sp phys pages i tr)
  then show ?case
    by (subst add_loop.simps) (simp add: Let_def)
qed

text \<open>
  A call that fails leaves the device as it was; a call that succeeds adds the 32-bit
  product \<^verbatim>\<open>pages * PAGE_SIZE\<close> to the offset, and the new offset is within the window,
  whatever the offset was before.
\<close>

lemma ioremap_offset_after:
  assumes "hvm_ioremap K E hvm tr sp pages = (p, hvm', tr')"
  shows "if p = 0 then hvm' = hvm
         else hvm' = hvm \<lparr> mmio_offset := mmio_offset hvm + pages * PAGE_SIZE K \<rparr> \<and>
              mmio_offset hvm' \<le> mmio_len hvm'"
  using assms
  by (auto simp add: hvm_ioremap_def Let_def split: if_splits prod.splits option.splits)

text \<open>Without wrap-around the offset grows by the byte length of the pages.\<close>

lemma ioremap_offset_grows:
  assumes "hvm_ioremap K E hvm tr sp pages = (p, hvm', tr')"
    and "unat (mmio_offset hvm) + unat pages * unat (PAGE_SIZE K) < 2 ^ 32"
  shows "unat (mmio_offset hvm') =
           (if p = 0 then unat (mmio_offset hvm)
            else unat (mmio_offset hvm) + unat pages * unat (PAGE_SIZE K))"
proof -
  have m: "unat (pages * PAGE_SIZE K) = unat pages * unat (PAGE_SIZE K)"
    using assms(2) by (simp add: unat_word_ariths)
  have "unat (mmio_offset hvm + pages * PAGE_SIZE K) =
          unat (mmio_offset hvm) + unat pages * unat (PAGE_SIZE K)"
    using assms(2) m by (simp add: unat_word_ariths(1))
  with ioremap_offset_after [OF assms(1)] show ?thesis
    by (auto split: if_splits)
qed

text \<open>
  Claim C9: the offset of the MMIO window is at most its length before and after every
  allocate and release; a successful allocate advances it by exactly
  \<open>page_count * page_size\<close>, a failing one leaves it unchanged, and no operation ever
  decreases it.

  The code adds \<^verbatim>\<open>len\<close> to the offset in 32 bits, after a check in which the same sum has
  already wrapped. With one page in use, a request for \<open>0xFFFFF\<close> pages of 4096 bytes
  passes the check and, every add request being accepted, succeeds and sets the offset
  from \<open>0x1000\<close> back to 0.
\<close>

theorem hvm_ioremap_offset_wraps:
  "mmio_offset one_page_used = 0x1000 \<and>
   fst (hvm_ioremap x86_consts good_env one_page_used [] 1 0xFFFFF) = 0xf2001000 \<and>
   mmio_offset (fst (snd (hvm_ioremap x86_consts good_env one_page_used [] 1 0xFFFFF))) = 0"
proof -
  have "fst (add_loop x86_consts good_env 1 0xf2001000 0xFFFFF 0
               [Ioremap 0xf2001000 0xFFFFF000 0xf2001000]) = None"
    by (rule add_loop_accepted) (simp add: good_env_def)
  then obtain tr2 where
    "add_loop x86_consts good_env 1 0xf2001000 0xFFFFF 0
       [Ioremap 0xf2001000 0xFFFFF000 0xf2001000] = (None, tr2)"
    by (cases "add_loop x86_consts good_env 1 0xf2001000 0xFFFFF 0
                 [Ioremap 0xf2001000 0xFFFFF000 0xf2001000]") auto
  moreover have "ioremap good_env [] 0xf2001000 0xFFFFF000 = 0xf2001000"
    "virt_to_phys good_env 0xf2001000 = 0xf2001000"
    by (simp_all add: good_env_def)
  ultimately show ?thesis
    by (simp add: hvm_ioremap_def one_page_used_def window_def zeroed_def x86_consts_def Let_def)
qed

subsection \<open>The status of \<^verbatim>\<open>hvm_map_shared_info\<close>\<close>

lemma add_loop_readl:
  "add_loop K (E \<lparr> readl := f \<rparr>) sp phys pages i tr = add_loop K E sp phys pages i tr"
proof (induction K E sp phys pages i tr rule: add_loop.induct)
  case (1 K E sp phys pages i tr)
  then show ?case
    by (subst add_loop.simps, subst (2) add_loop.simps) (simp add: Let_def)
qed

lemma rollback_loop_readl:
  "rollback_loop K (E \<lparr> readl := f \<rparr>) remove i tr = rollback_loop K E remove i tr"
proof (induction K E remove i tr rule: rollback_loop.induct)
  case (1 K E remove i tr)
  then show ?case
    by (subst rollback_loop.simps, subst (2) rollback_loop.simps) (simp add: Let_def)
qed

lemma hvm_ioremap_readl:
  "hvm_ioremap K (E \<lparr> readl := f \<rparr>) hvm tr sp pages = hvm_ioremap K E hvm tr sp pages"
  by (simp add: hvm_ioremap_def add_loop_readl rollback_loop_readl Let_def
      split: prod.splits option.splits)

text \<open>
  Claim C10: \<^verbatim>\<open>hvm_map_shared_info\<close> succeeds exactly when its allocation of one page
  through \<^verbatim>\<open>hvm_ioremap\<close> succeeds. Its only failure is the allocation returning a null
  pointer, reported as \<open>ENOMEM\<close>; the wall-clock value it reads is only printed, so
  replacing what the read returns by anything else changes nothing of the result.
\<close>

theorem hvm_map_shared_info_result:
  "fst (hvm_map_shared_info K E hvm tr) =
     (if fst (hvm_ioremap K E hvm tr (XENMAPSPACE_shared_info K) 1) = 0 then Some ENOMEM else None) \<and>
   hvm_map_shared_info K (E \<lparr> readl := f \<rparr>) hvm tr = hvm_map_shared_info K E hvm tr"
  by (simp add: hvm_map_shared_info_def hvm_ioremap_readl Let_def split: prod.splits)

end
